theory Spec2Isabelle
  imports
    Complex_Main
    "HOL-Library.Sublist"
    "HOL-Library.Char_ord"
    "HOL-Library.List_Lexorder"
    "HOL-Library.Multiset"
begin

section \<open>Strings, case folding and the SQL operators the queries use\<close>

text \<open>
  A string is a list of characters; a \<^typ>\<open>char\<close> stands for a code point below 256
  (ASCII and Latin-1), which is where JavaScript's \<open>String.prototype.toLowerCase\<close> and
  SQLite's \<open>LOWER\<close> already differ. SQLite's built-in \<open>LOWER\<close> folds the ASCII letters
  only; \<open>toLowerCase\<close> folds every cased letter (below 256: A-Z, and U+00C0..U+00DE
  but for the multiplication sign U+00D7).
\<close>

definition sqlite_lower_char :: "char \<Rightarrow> char" where
  "sqlite_lower_char c =
     (let n = (of_char c :: nat) in if 65 \<le> n \<and> n \<le> 90 then char_of (n + 32) else c)"

definition toLowerCase_char :: "char \<Rightarrow> char" where
  "toLowerCase_char c =
     (let n = (of_char c :: nat) in
      if (65 \<le> n \<and> n \<le> 90) \<or> (192 \<le> n \<and> n \<le> 222 \<and> n \<noteq> 215)
      then char_of (n + 32) else c)"

definition LOWER :: "string \<Rightarrow> string" where
  "LOWER s = map sqlite_lower_char s"

definition toLowerCase :: "string \<Rightarrow> string" where
  "toLowerCase s = map toLowerCase_char s"

text \<open>
  \<open>x LIKE pattern\<close> as SQLite evaluates it with no ESCAPE clause. The engine reads the
  operand and the pattern as C strings, that is, each as far as its first U+0000
  (\<open>CHR 0x00\<close>), and matches what it has read: \<open>%\<close> in the pattern matches any run of
  characters, \<open>_\<close> matches any one character, and every other character matches itself,
  upper and lower case of an ASCII letter being the same.
\<close>

definition until_nul :: "string \<Rightarrow> string" where
  "until_nul s = takeWhile (\<lambda>c. c \<noteq> CHR 0x00) s"

fun like_match :: "string \<Rightarrow> string \<Rightarrow> bool" where
  "like_match [] [] = True"
| "like_match (c # s) [] = False"
| "like_match [] (p # ps) = (p = CHR ''%'' \<and> like_match [] ps)"
| "like_match (c # s) (p # ps) =
     (if p = CHR ''%'' then like_match (c # s) ps \<or> like_match s (p # ps)
      else (p = CHR ''_'' \<or> sqlite_lower_char p = sqlite_lower_char c) \<and> like_match s ps)"

definition sql_like :: "string \<Rightarrow> string \<Rightarrow> bool" where
  "sql_like x pattern = like_match (until_nul x) (until_nul pattern)"



text \<open>\<open>LIMIT n\<close>: a negative \<open>n\<close> means no limit in SQLite.\<close>

definition sql_limit :: "int \<Rightarrow> 'a list \<Rightarrow> 'a list" where
  "sql_limit n rows = (if n < 0 then rows else take (nat n) rows)"

text \<open>
  \<open>ORDER BY\<close>: the rows sorted by the relation \<open>le\<close> of the sort keys. SQL leaves the
  order of rows with equal keys open; the model keeps them in table order (an insertion
  sort that is stable).
\<close>

fun insort_by :: "('a \<Rightarrow> 'a \<Rightarrow> bool) \<Rightarrow> 'a \<Rightarrow> 'a list \<Rightarrow> 'a list" where
  "insort_by le x [] = [x]"
| "insort_by le x (y # ys) = (if le x y then x # y # ys else y # insort_by le x ys)"

definition order_by :: "('a \<Rightarrow> 'a \<Rightarrow> bool) \<Rightarrow> 'a list \<Rightarrow> 'a list" where
  "order_by le rows = foldr (insort_by le) rows []"

section \<open>The data model\<close>

text \<open>
  The rows of the tables, with the fields of the TypeScript models (camelCase in the
  source; prefixed here where two models share a field name). A price is a number that
  the code only copies and compares, never computes with.
\<close>

record product =
  productId :: int
  product_supplierId :: int
  product_name :: string
  product_description :: string
  price :: rat
  sku :: string
  unit :: string

record supplier =
  supplierId :: int
  supplier_name :: string
  email :: "string option"

text \<open>\<open>Omit<Order, 'orderId'>\<close> and \<open>Order\<close>.\<close>

record order_data =
  branchId :: int
  orderDate :: string
  status :: string
  order_name :: string
  order_description :: string

record order = order_data +
  orderId :: int

text \<open>\<open>Omit<OrderDetail, 'orderDetailId'>\<close>, \<open>OrderDetail\<close> and
  \<open>OrderDetail & { product: Product }\<close>.\<close>

record order_detail_data =
  detail_orderId :: int
  detail_productId :: int
  quantity :: int
  unitPrice :: rat
  detail_notes :: string

record order_detail = order_detail_data +
  orderDetailId :: int

record order_detail_with_product = order_detail +
  detail_product :: product

text \<open>\<open>OrderWithDetails\<close>, the body of the 201 response.\<close>

record order_with_details = order +
  details :: "order_detail_with_product list"

record tables =
  products :: "product list"
  suppliers :: "supplier list"
  orders :: "order list"
  order_details :: "order_detail list"

subsection \<open>Search suggestions\<close>

datatype suggestion_type = ProductType | SupplierType | OrderType

text \<open>
  The \<open>subtext\<close> of a suggestion is a template literal; the model keeps the template and
  the values in its holes, and leaves the rendering of a number and of a locale date out:
  \<open>SKU: ${sku} | $${price}\<close>, \<open>supplier.email || ''\<close>, and
  \<open>Status: ${status} | ${new Date(orderDate).toLocaleDateString()}\<close>.
\<close>

datatype subtext =
  ProductSubtext string rat
| SupplierSubtext string
| OrderSubtext string string

record metadata =
  metadata_price :: rat
  metadata_sku :: string

record suggestion =
  suggestion_type :: suggestion_type
  suggestion_id :: int
  suggestion_text :: string
  suggestion_subtext :: subtext
  suggestion_metadata :: "metadata option"

section \<open>SearchRepository\<close>

subsection \<open>The three queries, one parameter for each placeholder\<close>

definition products_relevance :: "string \<Rightarrow> string \<Rightarrow> string \<Rightarrow> string \<Rightarrow> product \<Rightarrow> nat" where
  "products_relevance p1 p2 p3 p4 row =
     (if LOWER (product_name row) = p1 \<or> LOWER (sku row) = p2 then 1
      else if sql_like (LOWER (product_name row)) p3 \<or> sql_like (LOWER (sku row)) p4 then 2
      else 3)"

definition products_where :: "string \<Rightarrow> string \<Rightarrow> product \<Rightarrow> bool" where
  "products_where p5 p6 row \<longleftrightarrow>
     sql_like (LOWER (product_name row)) p5 \<or> sql_like (LOWER (sku row)) p6"

text \<open>\<open>ORDER BY relevance, name\<close> (text compares bytewise, the BINARY collation).\<close>

definition products_order :: "string \<Rightarrow> string \<Rightarrow> string \<Rightarrow> string \<Rightarrow> product \<Rightarrow> product \<Rightarrow> bool" where
  "products_order p1 p2 p3 p4 a b \<longleftrightarrow>
     products_relevance p1 p2 p3 p4 a < products_relevance p1 p2 p3 p4 b \<or>
     (products_relevance p1 p2 p3 p4 a = products_relevance p1 p2 p3 p4 b \<and>
      product_name a \<le> product_name b)"

definition products_sql ::
  "string \<Rightarrow> string \<Rightarrow> string \<Rightarrow> string \<Rightarrow> string \<Rightarrow> string \<Rightarrow> int \<Rightarrow> tables \<Rightarrow> product list" where
  "products_sql p1 p2 p3 p4 p5 p6 p7 db =
     sql_limit p7 (order_by (products_order p1 p2 p3 p4)
       (filter (products_where p5 p6) (products db)))"

definition suppliers_relevance :: "string \<Rightarrow> string \<Rightarrow> supplier \<Rightarrow> nat" where
  "suppliers_relevance p1 p2 row =
     (if LOWER (supplier_name row) = p1 then 1
      else if sql_like (LOWER (supplier_name row)) p2 then 2
      else 3)"

definition suppliers_where :: "string \<Rightarrow> supplier \<Rightarrow> bool" where
  "suppliers_where p3 row \<longleftrightarrow> sql_like (LOWER (supplier_name row)) p3"

definition suppliers_order :: "string \<Rightarrow> string \<Rightarrow> supplier \<Rightarrow> supplier \<Rightarrow> bool" where
  "suppliers_order p1 p2 a b \<longleftrightarrow>
     suppliers_relevance p1 p2 a < suppliers_relevance p1 p2 b \<or>
     (suppliers_relevance p1 p2 a = suppliers_relevance p1 p2 b \<and>
      supplier_name a \<le> supplier_name b)"

definition suppliers_sql :: "string \<Rightarrow> string \<Rightarrow> string \<Rightarrow> int \<Rightarrow> tables \<Rightarrow> supplier list" where
  "suppliers_sql p1 p2 p3 p4 db =
     sql_limit p4 (order_by (suppliers_order p1 p2)
       (filter (suppliers_where p3) (suppliers db)))"

definition orders_relevance :: "string \<Rightarrow> string \<Rightarrow> order \<Rightarrow> nat" where
  "orders_relevance p1 p2 row =
     (if LOWER (order_name row) = p1 then 1
      else if sql_like (LOWER (order_name row)) p2 then 2
      else 3)"

definition orders_where :: "string \<Rightarrow> order \<Rightarrow> bool" where
  "orders_where p3 row \<longleftrightarrow> sql_like (LOWER (order_name row)) p3"

text \<open>\<open>ORDER BY relevance, order_date DESC\<close>.\<close>

definition orders_order :: "string \<Rightarrow> string \<Rightarrow> order \<Rightarrow> order \<Rightarrow> bool" where
  "orders_order p1 p2 a b \<longleftrightarrow>
     orders_relevance p1 p2 a < orders_relevance p1 p2 b \<or>
     (orders_relevance p1 p2 a = orders_relevance p1 p2 b \<and> orderDate b \<le> orderDate a)"

definition orders_sql :: "string \<Rightarrow> string \<Rightarrow> string \<Rightarrow> int \<Rightarrow> tables \<Rightarrow> order list" where
  "orders_sql p1 p2 p3 p4 db =
     sql_limit p4 (order_by (orders_order p1 p2)
       (filter (orders_where p3) (orders db)))"

subsection \<open>searchProducts, searchSuppliers, searchOrders\<close>

definition product_suggestion :: "product \<Rightarrow> suggestion" where
  "product_suggestion row =
     \<lparr>suggestion_type = ProductType,
      suggestion_id = productId row,
      suggestion_text = product_name row,
      suggestion_subtext = ProductSubtext (sku row) (price row),
      suggestion_metadata = Some \<lparr>metadata_price = price row, metadata_sku = sku row\<rparr>\<rparr>"

definition supplier_suggestion :: "supplier \<Rightarrow> suggestion" where
  "supplier_suggestion row =
     \<lparr>suggestion_type = SupplierType,
      suggestion_id = supplierId row,
      suggestion_text = supplier_name row,
      suggestion_subtext =
        SupplierSubtext (case email row of None \<Rightarrow> [] | Some e \<Rightarrow> e),
      suggestion_metadata = None\<rparr>"

definition order_suggestion :: "order \<Rightarrow> suggestion" where
  "order_suggestion row =
     \<lparr>suggestion_type = OrderType,
      suggestion_id = orderId row,
      suggestion_text = order_name row,
      suggestion_subtext = OrderSubtext (status row) (orderDate row),
      suggestion_metadata = None\<rparr>"

definition searchProducts :: "tables \<Rightarrow> string \<Rightarrow> int \<Rightarrow> suggestion list" where
  "searchProducts db query limit =
     (let searchPattern = ''%'' @ query @ ''%'';
          exactPattern = toLowerCase query;
          rows = products_sql exactPattern exactPattern
                   (exactPattern @ ''%'') (exactPattern @ ''%'')
                   searchPattern searchPattern limit db
      in map product_suggestion rows)"

definition searchSuppliers :: "tables \<Rightarrow> string \<Rightarrow> int \<Rightarrow> suggestion list" where
  "searchSuppliers db query limit =
     (let searchPattern = ''%'' @ query @ ''%'';
          exactPattern = toLowerCase query;
          rows = suppliers_sql exactPattern (exactPattern @ ''%'') searchPattern limit db
      in map supplier_suggestion rows)"

definition searchOrders :: "tables \<Rightarrow> string \<Rightarrow> int \<Rightarrow> suggestion list" where
  "searchOrders db query limit =
     (let searchPattern = ''%'' @ query @ ''%'';
          exactPattern = toLowerCase query;
          rows = orders_sql exactPattern (exactPattern @ ''%'') searchPattern limit db
      in map order_suggestion rows)"

subsection \<open>getSuggestions\<close>

text \<open>
  The interleaving loop \<open>for (let i = 0; i < maxLength; i++)\<close> with its three pushes and
  its \<open>break\<close>; \<open>acc\<close> is \<open>allSuggestions\<close>.
\<close>

function interleave_loop ::
  "nat \<Rightarrow> nat \<Rightarrow> int \<Rightarrow> 'a list \<Rightarrow> 'a list \<Rightarrow> 'a list \<Rightarrow> 'a list \<Rightarrow> 'a list" where
  "interleave_loop i maxLength limit ps ss os acc =
     (if i < maxLength then
        (let acc1 = (if i < length ps then acc @ [ps ! i] else acc);
             acc2 = (if i < length ss then acc1 @ [ss ! i] else acc1);
             acc3 = (if i < length os then acc2 @ [os ! i] else acc2)
         in if limit \<le> int (length acc3) then acc3
            else interleave_loop (Suc i) maxLength limit ps ss os acc3)
      else acc)"
  by pat_completeness auto
termination
  by (relation "measure (\<lambda>(i, maxLength, limit, ps, ss, os, acc). maxLength - i)") auto

declare interleave_loop.simps [simp del]

text \<open>\<open>xs.slice(0, n)\<close>: a negative \<open>n\<close> counts from the end of the array.\<close>

definition slice0 :: "int \<Rightarrow> 'a list \<Rightarrow> 'a list" where
  "slice0 n xs = (if n < 0 then take (length xs - nat (- n)) xs else take (nat n) xs)"

text \<open>
  The entity type is \<open>undefined\<close> (\<open>None\<close>) or whatever string the route passes on: the
  cast in the route does not check it.
\<close>

definition getSuggestions :: "tables \<Rightarrow> string \<Rightarrow> string option \<Rightarrow> int \<Rightarrow> suggestion list" where
  "getSuggestions db query entityType limit =
     (if entityType = Some ''products'' then searchProducts db query limit
      else if entityType = Some ''suppliers'' then searchSuppliers db query limit
      else if entityType = Some ''orders'' then searchOrders db query limit
      else
        (let perEntityLimit = \<lceil>real_of_int limit / 3\<rceil>;
             ps = searchProducts db query perEntityLimit;
             ss = searchSuppliers db query perEntityLimit;
             os = searchOrders db query perEntityLimit;
             maxLength = max (max (length ps) (length ss)) (length os);
             allSuggestions = interleave_loop 0 maxLength limit ps ss os []
         in slice0 limit allSuggestions))"

text \<open>
  The interleaving in the words of the specification: one element of each list that still
  has one, products first, then suppliers, then orders, and again with what is left.
\<close>

function round_robin :: "'a list \<Rightarrow> 'a list \<Rightarrow> 'a list \<Rightarrow> 'a list" where
  "round_robin ps ss os =
     (if ps = [] \<and> ss = [] \<and> os = [] then []
      else take 1 ps @ take 1 ss @ take 1 os @ round_robin (tl ps) (tl ss) (tl os))"
  by pat_completeness auto
termination
  apply (relation "measure (\<lambda>(ps, ss, os). length ps + length ss + length os)")
   apply simp
  subgoal for ps ss os by (cases ps; cases ss; cases os) simp_all
  done

declare round_robin.simps [simp del]

section \<open>The search route\<close>

datatype error =
  ValidationError string
| Error string
| ProductNotInValidationMap int
| DatabaseError string

text \<open>
  What a handler does with its request: it sends a reply (status and body) or hands an
  error to \<open>next\<close>.
\<close>

datatype 'body reply = Reply nat 'body | Next error

text \<open>
  \<open>req.query\<close>: each parameter is absent or a string (repeated and nested parameters,
  which the query parser turns into arrays and objects, are not modelled).
\<close>

record search_query =
  query_q :: "string option"
  query_entity :: "string option"
  query_limit :: "string option"

record search_response =
  response_query :: string
  response_suggestions :: "suggestion list"

text \<open>
  \<open>parseInt(string)\<close> with no radix: leading white space is skipped, then an optional
  sign, then \<open>0x\<close> or \<open>0X\<close> selects radix 16, then the longest run of digits of the
  radix is read; no digit at all gives \<open>NaN\<close>, which is \<open>None\<close> here. The integer read
  is exact (the code only compares it with 1 and 20).
\<close>

definition is_white_space :: "char \<Rightarrow> bool" where
  "is_white_space c \<longleftrightarrow> (of_char c :: nat) \<in> {9, 10, 11, 12, 13, 32, 160}"

definition digit_value :: "char \<Rightarrow> nat" where
  "digit_value c =
     (let n = (of_char c :: nat) in
      if 48 \<le> n \<and> n \<le> 57 then n - 48
      else if 97 \<le> n \<and> n \<le> 122 then n - 87
      else if 65 \<le> n \<and> n \<le> 90 then n - 55
      else 36)"

definition parseInt :: "string \<Rightarrow> int option" where
  "parseInt inputString =
     (let s = dropWhile is_white_space inputString;
          sign = (if take 1 s = ''-'' then - 1 else 1 :: int);
          s1 = (if take 1 s = ''-'' \<or> take 1 s = ''+'' then drop 1 s else s);
          radix = (if take 2 s1 = ''0x'' \<or> take 2 s1 = ''0X'' then 16 else 10 :: nat);
          s2 = (if radix = 16 then drop 2 s1 else s1);
          z = takeWhile (\<lambda>c. digit_value c < radix) s2
      in if z = [] then None
         else Some (sign * int (foldl (\<lambda>acc c. acc * radix + digit_value c) 0 z)))"

definition validEntities :: "string list" where
  "validEntities = [''products'', ''suppliers'', ''orders'']"

text \<open>\<open>validEntities.join(', ')\<close>.\<close>

fun join :: "string \<Rightarrow> string list \<Rightarrow> string" where
  "join sep [] = []"
| "join sep [x] = x"
| "join sep (x # y # ys) = x @ sep @ join sep (y # ys)"

text \<open>The message \<open>Query parameter "q" is required\<close> (\<open>CHR 0x22\<close> is the double quote).\<close>

definition q_is_required :: string where
  "q_is_required = ''Query parameter '' @ [CHR 0x22] @ ''q'' @ [CHR 0x22] @ '' is required''"

text \<open>
  The handler of \<open>GET /suggestions\<close>. A string is falsy when it is empty; \<open>limit\<close> is
  a number or \<open>NaN\<close>, and every comparison with \<open>NaN\<close> is false.
\<close>

definition suggestions_handler :: "tables \<Rightarrow> search_query \<Rightarrow> search_response reply" where
  "suggestions_handler db req =
     (let query = query_q req;
          entity = query_entity req;
          limit = (case query_limit req of
                     None \<Rightarrow> Some 10
                   | Some l \<Rightarrow> if l \<noteq> [] then parseInt l else Some 10)
      in case query of
           None \<Rightarrow> Next (ValidationError q_is_required)
         | Some q \<Rightarrow>
             if q = [] then Next (ValidationError q_is_required)
             else if length q < 3 then
               Next (ValidationError ''Query must be at least 3 characters long'')
             else if (case entity of None \<Rightarrow> False
                      | Some e \<Rightarrow> e \<noteq> [] \<and> e \<notin> set validEntities) then
               Next (ValidationError
                 (''Invalid entity type. Must be one of: '' @ join '', '' validEntities))
             else
               (case limit of
                  None \<Rightarrow> Next (ValidationError ''Limit must be a positive number'')
                | Some n \<Rightarrow>
                    if n < 1 then Next (ValidationError ''Limit must be a positive number'')
                    else if n > 20 then Next (ValidationError ''Limit cannot exceed 20'')
                    else Reply 200
                      \<lparr>response_query = q,
                       response_suggestions = getSuggestions db q entity n\<rparr>))"

text \<open>
  Modelled from the spec: the error-handling middleware \<open>errorHandler\<close> of
  \<open>utils/errors\<close>, which is not among the sources. A \<open>ValidationError\<close> becomes status 400
  with the body \<open>{error: {code: "VALIDATION_ERROR", message}}\<close>, the message prefixed as
  the documented examples of the route show; any other error becomes status 500, with a
  body the specification leaves open (\<open>None\<close>).
\<close>

record error_body =
  error_code :: string
  error_message :: string

definition errorHandler :: "error \<Rightarrow> nat \<times> error_body option" where
  "errorHandler err =
     (case err of
        ValidationError message \<Rightarrow>
          (400, Some \<lparr>error_code = ''VALIDATION_ERROR'',
                      error_message = ''Validation error: '' @ message\<rparr>)
      | Error message \<Rightarrow> (500, None)
      | ProductNotInValidationMap pid \<Rightarrow> (500, None)
      | DatabaseError message \<Rightarrow> (500, None))"

text \<open>The application of the tests: the router, then \<open>errorHandler\<close>.\<close>

definition GET_suggestions ::
  "tables \<Rightarrow> search_query \<Rightarrow> nat \<times> (error_body option + search_response)" where
  "GET_suggestions db req =
     (case suggestions_handler db req of
        Reply code body \<Rightarrow> (code, Inr body)
      | Next err \<Rightarrow> (fst (errorHandler err), Inl (snd (errorHandler err))))"

section \<open>The order route: creating an order from a cart\<close>

record cart_item =
  item_productId :: int
  item_quantity :: int

text \<open>
  \<open>req.body as CartOrderRequest\<close>: the cast checks nothing, so \<open>branchId\<close> may be absent
  and \<open>items\<close> may be absent or no array (\<open>None\<close>).
\<close>

record cart_order_request =
  request_branchId :: "int option"
  request_items :: "cart_item list option"

text \<open>The two bodies the handler itself sends.\<close>

datatype order_body =
  OrderBody order_with_details
| ProductNotFoundBody string int

subsection \<open>The database connection and the repositories\<close>

text \<open>
  Modelled from the spec: the connection of \<open>db/sqlite\<close> is not among the sources. It
  holds the tables and, while a transaction is open, the tables as they were when it
  began. The three statements the handler runs have the standard semantics: \<open>BEGIN\<close>
  opens a transaction, \<open>COMMIT\<close> keeps what was written, \<open>ROLLBACK\<close> puts the tables
  back; SQLite refuses a \<open>BEGIN\<close> inside a transaction and a \<open>COMMIT\<close> or \<open>ROLLBACK\<close>
  outside one.
\<close>

record database =
  tbl :: tables
  txn :: "tables option"

datatype sql_statement = BEGIN_TRANSACTION | COMMIT | ROLLBACK

definition db_run :: "sql_statement \<Rightarrow> database \<Rightarrow> (error + unit) \<times> database" where
  "db_run stmt db =
     (case stmt of
        BEGIN_TRANSACTION \<Rightarrow>
          (case txn db of
             None \<Rightarrow> (Inr (), db\<lparr>txn := Some (tbl db)\<rparr>)
           | Some saved \<Rightarrow>
               (Inl (DatabaseError ''cannot start a transaction within a transaction''), db))
      | COMMIT \<Rightarrow>
          (case txn db of
             None \<Rightarrow> (Inl (DatabaseError ''cannot commit - no transaction is active''), db)
           | Some saved \<Rightarrow> (Inr (), db\<lparr>txn := None\<rparr>))
      | ROLLBACK \<Rightarrow>
          (case txn db of
             None \<Rightarrow> (Inl (DatabaseError ''cannot rollback - no transaction is active''), db)
           | Some saved \<Rightarrow> (Inr (), \<lparr>tbl = saved, txn = None\<rparr>)))"

text \<open>
  The repositories are not among the sources either; the handler takes them as a
  parameter. A lookup reads the tables and may throw; a \<open>create\<close> may throw and may
  write to the tables whatever it does.
\<close>

record repositories =
  productsRepo_findById :: "int \<Rightarrow> tables \<Rightarrow> error + product option"
  ordersRepo_create :: "order_data \<Rightarrow> tables \<Rightarrow> (error + order) \<times> tables"
  ordersRepo_findById :: "int \<Rightarrow> tables \<Rightarrow> error + order option"
  orderDetailsRepo_create ::
    "order_detail_data \<Rightarrow> tables \<Rightarrow> (error + order_detail) \<times> tables"

text \<open>A repository call on the connection: it works on the tables.\<close>

definition on_tables :: "(tables \<Rightarrow> 'a \<times> tables) \<Rightarrow> database \<Rightarrow> 'a \<times> database" where
  "on_tables f db = (case f (tbl db) of (r, t) \<Rightarrow> (r, db\<lparr>tbl := t\<rparr>))"

subsection \<open>The handler of \<open>POST /\<close>\<close>

text \<open>
  The first loop: every product is looked up, in input order, and put into
  \<open>productMap\<close>; the loop throws, returns from the handler at the first product that is
  not found, or ends with the map.
\<close>

datatype resolution =
  Threw error
| NotFound int
| Resolved "int \<rightharpoonup> product"

fun resolve_products ::
  "repositories \<Rightarrow> tables \<Rightarrow> cart_item list \<Rightarrow> (int \<rightharpoonup> product) \<Rightarrow> resolution" where
  "resolve_products repos db [] productMap = Resolved productMap"
| "resolve_products repos db (item # items) productMap =
     (case productsRepo_findById repos (item_productId item) db of
        Inl err \<Rightarrow> Threw err
      | Inr None \<Rightarrow> NotFound (item_productId item)
      | Inr (Some product) \<Rightarrow>
          resolve_products repos db items (productMap(item_productId item \<mapsto> product)))"

text \<open>
  The second loop, inside the transaction: one \<open>OrderDetail\<close> for each item, in input
  order; \<open>orderDetails\<close> collects the created rows with their products.
\<close>

fun create_details ::
  "repositories \<Rightarrow> int \<Rightarrow> (int \<rightharpoonup> product) \<Rightarrow> cart_item list \<Rightarrow>
   order_detail_with_product list \<Rightarrow> tables \<Rightarrow>
   (error + order_detail_with_product list) \<times> tables" where
  "create_details repos order_id productMap [] orderDetails db = (Inr orderDetails, db)"
| "create_details repos order_id productMap (item # items) orderDetails db =
     (case productMap (item_productId item) of
        None \<Rightarrow> (Inl (ProductNotInValidationMap (item_productId item)), db)
      | Some product \<Rightarrow>
          (let orderDetailData =
                 \<lparr>detail_orderId = order_id,
                  detail_productId = item_productId item,
                  quantity = item_quantity item,
                  unitPrice = price product,
                  detail_notes = []\<rparr>
           in case orderDetailsRepo_create repos orderDetailData db of
                (Inl err, db') \<Rightarrow> (Inl err, db')
              | (Inr createdDetail, db') \<Rightarrow>
                  create_details repos order_id productMap items
                    (orderDetails @
                       [order_detail.extend createdDetail
                          (order_detail_with_product.fields product)])
                    db'))"

text \<open>
  What the \<open>try\<close> block writes between \<open>BEGIN TRANSACTION\<close> and \<open>COMMIT\<close>: the order,
  then its details. \<open>now\<close> is \<open>new Date().toISOString()\<close>.
\<close>

definition create_order_and_details ::
  "repositories \<Rightarrow> string \<Rightarrow> int \<Rightarrow> cart_item list \<Rightarrow> (int \<rightharpoonup> product) \<Rightarrow> tables \<Rightarrow>
   (error + int \<times> order_detail_with_product list) \<times> tables" where
  "create_order_and_details repos now branch items productMap db =
     (let orderData =
            \<lparr>branchId = branch,
             orderDate = now,
             status = ''pending'',
             order_name = [],
             order_description = []\<rparr>
      in case ordersRepo_create repos orderData db of
           (Inl err, db') \<Rightarrow> (Inl err, db')
         | (Inr createdOrder, db') \<Rightarrow>
             (case create_details repos (orderId createdOrder) productMap items [] db' of
                (Inl err, db'') \<Rightarrow> (Inl err, db'')
              | (Inr orderDetails, db'') \<Rightarrow> (Inr (orderId createdOrder, orderDetails), db'')))"

text \<open>The \<open>catch\<close> block: \<open>ROLLBACK\<close>, then the error is thrown again.\<close>

definition rollback_and_rethrow :: "error \<Rightarrow> database \<Rightarrow> (error + 'a) \<times> database" where
  "rollback_and_rethrow err db =
     (case db_run ROLLBACK db of
        (Inl err', db') \<Rightarrow> (Inl err', db')
      | (Inr u, db') \<Rightarrow> (Inl err, db'))"

text \<open>The \<open>try\<close> with its \<open>catch\<close>.\<close>

definition transaction_block ::
  "repositories \<Rightarrow> string \<Rightarrow> int \<Rightarrow> cart_item list \<Rightarrow> (int \<rightharpoonup> product) \<Rightarrow> database \<Rightarrow>
   (error + int \<times> order_detail_with_product list) \<times> database" where
  "transaction_block repos now branch items productMap db =
     (case db_run BEGIN_TRANSACTION db of
        (Inl err, db1) \<Rightarrow> rollback_and_rethrow err db1
      | (Inr u, db1) \<Rightarrow>
          (case on_tables (create_order_and_details repos now branch items productMap) db1 of
             (Inl err, db2) \<Rightarrow> rollback_and_rethrow err db2
           | (Inr created, db2) \<Rightarrow>
               (case db_run COMMIT db2 of
                  (Inl err, db3) \<Rightarrow> rollback_and_rethrow err db3
                | (Inr u', db3) \<Rightarrow> (Inr created, db3))))"

text \<open>
  The handler. \<open>!cartRequest.branchId\<close> holds of an absent \<open>branchId\<close> and of 0; the
  test of \<open>items\<close> holds of absent items, of what is no array, and of the empty array.
\<close>

definition create_order_handler ::
  "repositories \<Rightarrow> string \<Rightarrow> cart_order_request \<Rightarrow> database \<Rightarrow> order_body reply \<times> database" where
  "create_order_handler repos now cartRequest db =
     (case request_branchId cartRequest of
        None \<Rightarrow> (Next (ValidationError ''branchId is required''), db)
      | Some branch \<Rightarrow>
          if branch = 0 then (Next (ValidationError ''branchId is required''), db)
          else
            (case request_items cartRequest of
               None \<Rightarrow> (Next (ValidationError ''items array must not be empty''), db)
             | Some items \<Rightarrow>
                 if items = [] then
                   (Next (ValidationError ''items array must not be empty''), db)
                 else
                   (case resolve_products repos (tbl db) items Map.empty of
                      Threw err \<Rightarrow> (Next err, db)
                    | NotFound pid \<Rightarrow>
                        (Reply 400 (ProductNotFoundBody ''Product not found'' pid), db)
                    | Resolved productMap \<Rightarrow>
                        (case transaction_block repos now branch items productMap db of
                           (Inl err, db') \<Rightarrow> (Next err, db')
                         | (Inr (order_id, orderDetails), db') \<Rightarrow>
                             (case ordersRepo_findById repos order_id (tbl db') of
                                Inl err \<Rightarrow> (Next err, db')
                              | Inr None \<Rightarrow>
                                  (Next (Error ''Failed to retrieve created order''), db')
                              | Inr (Some order) \<Rightarrow>
                                  (Reply 201
                                     (OrderBody
                                        (order.extend order
                                           (order_with_details.fields orderDetails))),
                                   db'))))))"

subsection \<open>Repositories over the tables\<close>

text \<open>
  Modelled from the spec: the repositories of \<open>repositories/\<close>, which are not among the
  sources. \<open>findById\<close> returns the row with the identifier, if there is one; \<open>create\<close>
  inserts the given fields as a new row under a fresh identifier (one more than the
  largest in the table, as SQLite numbers rows) and returns the row.
\<close>

definition next_id :: "int list \<Rightarrow> int" where
  "next_id ids = fold max ids 0 + 1"

definition table_repositories :: repositories where
  "table_repositories =
     \<lparr>productsRepo_findById =
        (\<lambda>pid db. Inr (find (\<lambda>p. productId p = pid) (products db))),
      ordersRepo_create =
        (\<lambda>orderData db.
           let created = order_data.extend orderData
                           (order.fields (next_id (map orderId (orders db))))
           in (Inr created, db\<lparr>orders := orders db @ [created]\<rparr>)),
      ordersRepo_findById =
        (\<lambda>oid db. Inr (find (\<lambda>r. orderId r = oid) (orders db))),
      orderDetailsRepo_create =
        (\<lambda>orderDetailData db.
           let created = order_detail_data.extend orderDetailData
                           (order_detail.fields (next_id (map orderDetailId (order_details db))))
           in (Inr created, db\<lparr>order_details := order_details db @ [created]\<rparr>))\<rparr>"

text \<open>\<open>UPDATE products SET price = ? WHERE product_id = ?\<close>, as the price test runs it.\<close>

definition update_product_price :: "rat \<Rightarrow> int \<Rightarrow> tables \<Rightarrow> tables" where
  "update_product_price p1 p2 db =
     db\<lparr>products := map (\<lambda>row. if productId row = p2 then row\<lparr>price := p1\<rparr> else row)
                        (products db)\<rparr>"

section \<open>The rows the tests seed\<close>

definition seed_suppliers :: "supplier list" where
  "seed_suppliers =
     [\<lparr>supplierId = 1, supplier_name = ''Widget Supplier Inc.'', email = Some ''john@widget.com''\<rparr>,
      \<lparr>supplierId = 2, supplier_name = ''Gadget Corp'', email = Some ''contact@gadget.com''\<rparr>,
      \<lparr>supplierId = 3, supplier_name = ''Widget Masters'',
       email = Some ''support@widgetmasters.com''\<rparr>]"

definition seed_products :: "product list" where
  "seed_products =
     [\<lparr>productId = 5, product_supplierId = 1, product_name = ''Widget A'',
       product_description = ''First widget'', price = 2999 / 100, sku = ''WDG-001'',
       unit = ''piece''\<rparr>,
      \<lparr>productId = 12, product_supplierId = 2, product_name = ''Gadget B'',
       product_description = ''Second gadget'', price = 4999 / 100, sku = ''GDG-002'',
       unit = ''box''\<rparr>,
      \<lparr>productId = 15, product_supplierId = 1, product_name = ''Super Widget'',
       product_description = ''Premium widget'', price = 9999 / 100, sku = ''WDG-SUPER'',
       unit = ''piece''\<rparr>,
      \<lparr>productId = 20, product_supplierId = 2, product_name = ''Mini Gadget'',
       product_description = ''Small gadget'', price = 1999 / 100, sku = ''GDG-MINI'',
       unit = ''piece''\<rparr>]"

definition seed_orders :: "order list" where
  "seed_orders =
     [\<lparr>branchId = 1, orderDate = ''2024-01-01'', status = ''pending'',
       order_name = ''Widget Order'', order_description = ''Order for widgets'', orderId = 1\<rparr>,
      \<lparr>branchId = 1, orderDate = ''2024-01-02'', status = ''processing'',
       order_name = ''Gadget Order'', order_description = ''Order for gadgets'', orderId = 2\<rparr>,
      \<lparr>branchId = 1, orderDate = ''2024-01-03'', status = ''delivered'',
       order_name = ''Widget Restock'', order_description = ''Restocking widgets'',
       orderId = 3\<rparr>]"

text \<open>The tables of the search tests.\<close>

definition search_seed :: tables where
  "search_seed =
     \<lparr>products = seed_products, suppliers = seed_suppliers, orders = seed_orders,
      order_details = []\<rparr>"

text \<open>The tables of the order tests: the first two products, no order yet.\<close>

definition order_seed :: database where
  "order_seed =
     \<lparr>tbl = \<lparr>products = take 2 seed_products,
             suppliers =
               [\<lparr>supplierId = 1, supplier_name = ''Supplier One'', email = None\<rparr>,
                \<lparr>supplierId = 2, supplier_name = ''Supplier Two'', email = None\<rparr>],
             orders = [], order_details = []\<rparr>,
      txn = None\<rparr>"

section \<open>Notions the statements about the routes use\<close>

subsection \<open>The rows a query matches\<close>




subsection \<open>The requests the search route rejects\<close>

text \<open>
  The limit a request asks for (10 when the parameter is absent or empty), and the
  requests that are rejected: \<open>q\<close> absent or shorter than 3 characters, an \<open>entity\<close> that
  is not empty and not one of the three names, or a limit that is no number or lies
  outside 1..20.
\<close>

definition requested_limit :: "search_query \<Rightarrow> int option" where
  "requested_limit req =
     (case query_limit req of
        None \<Rightarrow> Some 10
      | Some l \<Rightarrow> if l = [] then Some 10 else parseInt l)"

definition rejected :: "search_query \<Rightarrow> bool" where
  "rejected req \<longleftrightarrow>
     (case query_q req of None \<Rightarrow> True | Some q \<Rightarrow> length q < 3) \<or>
     (case query_entity req of
        None \<Rightarrow> False
      | Some e \<Rightarrow> e \<noteq> [] \<and> e \<notin> {''products'', ''suppliers'', ''orders''}) \<or>
     (case requested_limit req of None \<Rightarrow> True | Some n \<Rightarrow> n < 1 \<or> 20 < n)"

subsection \<open>Ranked substring search, in the words of the specification\<close>

text \<open>
  A query without the wildcards of \<open>LIKE\<close>, a query of ASCII characters only, a text
  without the character U+0000, and tables whose names and SKUs are such texts.
\<close>

definition wildcard_free :: "string \<Rightarrow> bool" where
  "wildcard_free q \<longleftrightarrow> CHR ''%'' \<notin> set q \<and> CHR ''_'' \<notin> set q"

definition ascii :: "string \<Rightarrow> bool" where
  "ascii q \<longleftrightarrow> list_all (\<lambda>c. (of_char c :: nat) < 128) q"

definition nul_free :: "string \<Rightarrow> bool" where
  "nul_free s \<longleftrightarrow> CHR 0x00 \<notin> set s"





text \<open>A table with one product, whose name has an accented letter: \<open>Caf\<close>\<open>e\<close>-acute \<open>Filter\<close>
  (\<open>CHR 0xE9\<close> is the small e with acute accent, \<open>CHR 0xC9\<close> the capital one).\<close>

definition accent_tables :: tables where
  "accent_tables =
     \<lparr>products =
        [\<lparr>productId = 1, product_supplierId = 1,
          product_name = ''Caf'' @ [CHR 0xE9] @ '' Filter'',
          product_description = ''Paper filter'', price = 5, sku = ''FLT-001'',
          unit = ''box''\<rparr>],
      suppliers = [], orders = [], order_details = []\<rparr>"

subsection \<open>What the order route is expected to do\<close>

text \<open>What a product lookup of the repositories returns, an error counting as nothing.\<close>

definition looked_up :: "repositories \<Rightarrow> tables \<Rightarrow> int \<Rightarrow> product option" where
  "looked_up repos t k = (case productsRepo_findById repos k t of Inl err \<Rightarrow> None | Inr r \<Rightarrow> r)"

text \<open>What the handler expects of a created detail, given the item and the product map.\<close>

definition detail_of_item ::
  "int \<Rightarrow> (int \<rightharpoonup> product) \<Rightarrow> cart_item \<Rightarrow> order_detail_with_product \<Rightarrow> bool" where
  "detail_of_item order_id productMap item d \<longleftrightarrow>
     detail_orderId d = order_id \<and>
     detail_productId d = item_productId item \<and>
     quantity d = item_quantity item \<and>
     productMap (item_productId item) = Some (detail_product d) \<and>
     unitPrice d = price (detail_product d) \<and>
     detail_notes d = []"

text \<open>The order row the handler creates for a branch at a time, under the next identifier.\<close>

definition created_order :: "tables \<Rightarrow> int \<Rightarrow> string \<Rightarrow> order" where
  "created_order t branch now =
     \<lparr>branchId = branch, orderDate = now, status = ''pending'', order_name = [],
      order_description = [], orderId = next_id (map orderId (orders t))\<rparr>"

text \<open>The product a lookup by identifier finds in the tables.\<close>

definition product_by_id :: "tables \<Rightarrow> int \<rightharpoonup> product" where
  "product_by_id t k = find (\<lambda>p. productId p = k) (products t)"

text \<open>A created detail carries the price the product has in the tables.\<close>

definition priced_from :: "tables \<Rightarrow> cart_item \<Rightarrow> order_detail \<Rightarrow> bool" where
  "priced_from t item d \<longleftrightarrow>
     detail_productId d = item_productId item \<and>
     map_option price (product_by_id t (item_productId item)) = Some (unitPrice d)"

text \<open>
  Repositories whose \<open>order_details\<close> table refuses a quantity below 1, as a \<open>CHECK\<close>
  constraint would: the insertion throws and writes nothing. And a time stamp, the one of
  the documented example response.
\<close>

definition checked_repositories :: repositories where
  "checked_repositories =
     table_repositories
       \<lparr>orderDetailsRepo_create :=
          (\<lambda>orderDetailData db.
             if quantity orderDetailData < 1
             then (Inl (DatabaseError ''CHECK constraint failed: quantity''), db)
             else orderDetailsRepo_create table_repositories orderDetailData db)\<rparr>"

definition test_now :: string where
  "test_now = ''2026-02-06T18:30:00.000Z''"

text \<open>Two requests of the tests: one widget, and the same product in two items.\<close>

definition one_widget :: cart_order_request where
  "one_widget =
     \<lparr>request_branchId = Some 1,
      request_items = Some [\<lparr>item_productId = 5, item_quantity = 1\<rparr>]\<rparr>"

definition twice_request :: cart_order_request where
  "twice_request =
     \<lparr>request_branchId = Some 1,
      request_items = Some [\<lparr>item_productId = 5, item_quantity = 2\<rparr>,
                            \<lparr>item_productId = 5, item_quantity = 3\<rparr>]\<rparr>"

section \<open>The interleaving of getSuggestions\<close>

lemma round_robin_Nil: "round_robin [] [] [] = []"
  by (subst round_robin.simps) simp

lemma push_if_present: "(if i < length xs then acc @ [xs ! i] else acc) = acc @ take 1 (drop i xs)"
proof (cases "i < length xs")
  case True
  then have "drop i xs = xs ! i # drop (Suc i) xs" by (rule Cons_nth_drop_Suc[symmetric])
  with True show ?thesis by simp
next
  case False
  then show ?thesis by simp
qed

lemma interleave_loop_step:
  "i < maxLength \<Longrightarrow>
   interleave_loop i maxLength limit ps ss os acc =
     (let acc3 = acc @ take 1 (drop i ps) @ take 1 (drop i ss) @ take 1 (drop i os)
      in if limit \<le> int (length acc3) then acc3
         else interleave_loop (Suc i) maxLength limit ps ss os acc3)"
  unfolding interleave_loop.simps[of i] Let_def push_if_present by (simp only: if_True append_assoc)

lemma interleave_loop_done:
  "\<not> i < maxLength \<Longrightarrow> interleave_loop i maxLength limit ps ss os acc = acc"
  by (subst interleave_loop.simps) (simp only: if_False)

lemma round_robin_step:
  "\<not> (ps = [] \<and> ss = [] \<and> os = []) \<Longrightarrow>
   round_robin ps ss os = take 1 ps @ take 1 ss @ take 1 os @ round_robin (tl ps) (tl ss) (tl os)"
  by (subst round_robin.simps) (simp only: if_False)

lemma interleave_loop_round_robin:
  "maxLength = max (max (length ps) (length ss)) (length os) \<Longrightarrow> 0 \<le> limit \<Longrightarrow>
   take (nat limit) (interleave_loop i maxLength limit ps ss os acc) =
   take (nat limit) (acc @ round_robin (drop i ps) (drop i ss) (drop i os))"
proof (induction i maxLength limit ps ss os acc rule: interleave_loop.induct)
  case (1 i maxLength limit ps ss os acc)
  define acc3 where "acc3 = acc @ take 1 (drop i ps) @ take 1 (drop i ss) @ take 1 (drop i os)"
  define rest where "rest = round_robin (drop (Suc i) ps) (drop (Suc i) ss) (drop (Suc i) os)"
  show ?case
  proof (cases "i < maxLength")
    case False
    with 1(2) have "length ps \<le> i" "length ss \<le> i" "length os \<le> i"
      by linarith+
    then have "drop i ps = []" "drop i ss = []" "drop i os = []"
      by simp_all
    then show ?thesis
      by (simp only: interleave_loop_done[OF False] round_robin_Nil append_Nil2)
  next
    case True
    with 1(2) have "i < length ps \<or> i < length ss \<or> i < length os"
      by linarith
    then have ne: "\<not> (drop i ps = [] \<and> drop i ss = [] \<and> drop i os = [])"
      by auto
    have tls: "tl (drop i ps) = drop (Suc i) ps" "tl (drop i ss) = drop (Suc i) ss"
        "tl (drop i os) = drop (Suc i) os"
      by (simp_all only: drop_Suc tl_drop)
    have rr: "acc @ round_robin (drop i ps) (drop i ss) (drop i os) = acc3 @ rest"
      unfolding acc3_def rest_def round_robin_step[OF ne] tls by (simp only: append_assoc)
    show ?thesis
    proof (cases "limit \<le> int (length acc3)")
      case stop: True
      then have loop: "interleave_loop i maxLength limit ps ss os acc = acc3"
        unfolding interleave_loop_step[OF True] Let_def acc3_def by (simp only: if_True)
      from stop have "nat limit \<le> length acc3" by linarith
      then have "take (nat limit) (acc3 @ rest) = take (nat limit) acc3" by simp
      then show ?thesis by (simp only: loop rr)
    next
      case go: False
      then have loop: "interleave_loop i maxLength limit ps ss os acc =
            interleave_loop (Suc i) maxLength limit ps ss os acc3"
        unfolding interleave_loop_step[OF True] Let_def acc3_def by (simp only: if_False)
      have acc3': "(if i < length os
             then (if i < length ss then (if i < length ps then acc @ [ps ! i] else acc) @ [ss ! i]
                   else (if i < length ps then acc @ [ps ! i] else acc)) @ [os ! i]
             else (if i < length ss then (if i < length ps then acc @ [ps ! i] else acc) @ [ss ! i]
                   else (if i < length ps then acc @ [ps ! i] else acc))) = acc3"
        unfolding acc3_def push_if_present by (simp only: append_assoc)
      have "take (nat limit) (interleave_loop (Suc i) maxLength limit ps ss os acc3) =
            take (nat limit) (acc3 @ rest)"
        using 1(1)[OF True refl refl refl _ 1(2) 1(3)] go
        unfolding acc3' rest_def by blast
      then show ?thesis by (simp only: loop rr)
    qed
  qed
qed

lemma getSuggestions_all_entities:
  assumes "0 \<le> limit"
  shows "getSuggestions db query None limit =
           take (nat limit)
             (round_robin (searchProducts db query \<lceil>real_of_int limit / 3\<rceil>)
                          (searchSuppliers db query \<lceil>real_of_int limit / 3\<rceil>)
                          (searchOrders db query \<lceil>real_of_int limit / 3\<rceil>))"
  using assms interleave_loop_round_robin[OF refl assms, of 0 _ _ _ "[]"]
  by (simp add: getSuggestions_def slice0_def Let_def)

text \<open>
  C1. With no entity filter and a limit that is not negative (so for every limit from 1
  to 20, and whatever the query), \<open>getSuggestions\<close> returns the round-robin interleaving
  of the three per-entity result lists, each searched with the limit
  \<open>ceil(limit / 3)\<close>, cut after \<open>limit\<close> elements; it has at most \<open>limit\<close> elements.
\<close>

theorem getSuggestions_round_robin:
  assumes "0 \<le> limit"
  shows "getSuggestions db query None limit =
           take (nat limit)
             (round_robin (searchProducts db query \<lceil>real_of_int limit / 3\<rceil>)
                          (searchSuppliers db query \<lceil>real_of_int limit / 3\<rceil>)
                          (searchOrders db query \<lceil>real_of_int limit / 3\<rceil>))
         \<and> length (getSuggestions db query None limit) \<le> nat limit"
  using getSuggestions_all_entities[OF assms] by simp

theorem getSuggestions_round_robin_witness:
  "getSuggestions search_seed ''widget'' None 10 =
     take (nat 10)
       (round_robin (searchProducts search_seed ''widget'' \<lceil>real_of_int 10 / 3\<rceil>)
                    (searchSuppliers search_seed ''widget'' \<lceil>real_of_int 10 / 3\<rceil>)
                    (searchOrders search_seed ''widget'' \<lceil>real_of_int 10 / 3\<rceil>))
   \<and> length (getSuggestions search_seed ''widget'' None 10) \<le> nat 10"
  by (rule getSuggestions_round_robin) simp

section \<open>Entity types in the interleaved suggestions\<close>






















section \<open>The replies of the search route\<close>

lemma handler_rejected:
  "rejected req \<Longrightarrow> \<exists>m. suggestions_handler db req = Next (ValidationError m)"
  by (auto simp: rejected_def requested_limit_def suggestions_handler_def Let_def validEntities_def
      split: option.splits if_splits)

lemma handler_accepted:
  "\<not> rejected req \<Longrightarrow>
   \<exists>q n. query_q req = Some q \<and> requested_limit req = Some n \<and>
     suggestions_handler db req =
       Reply 200 \<lparr>response_query = q,
                  response_suggestions = getSuggestions db q (query_entity req) n\<rparr>"
  by (auto simp: rejected_def requested_limit_def suggestions_handler_def Let_def validEntities_def
      split: option.splits if_splits)

text \<open>
  C9, as stated, fails for an empty \<open>entity\<close> parameter: the empty string is none of
  the three entity names, and the request is answered with status 200.
\<close>

theorem empty_entity_is_accepted:
  "[] \<notin> set validEntities \<and>
   fst (GET_suggestions search_seed
          \<lparr>query_q = Some ''widget'', query_entity = Some [], query_limit = None\<rparr>) = 200"
  by (simp add: validEntities_def GET_suggestions_def suggestions_handler_def)

text \<open>
  C9, amended: the route answers 400 with the code \<open>VALIDATION_ERROR\<close> exactly when the
  request is rejected in the sense of \<^const>\<open>rejected\<close>, where an empty \<open>entity\<close> counts as
  no filter, an empty \<open>limit\<close> as the default 10, and a limit is read by \<open>parseInt\<close>; every
  other request is answered 200 with the query and the suggestions for the requested
  limit.
\<close>

theorem GET_suggestions_status:
  "(rejected req \<longrightarrow>
      (\<exists>m. GET_suggestions db req =
             (400, Inl (Some \<lparr>error_code = ''VALIDATION_ERROR'', error_message = m\<rparr>)))) \<and>
   (\<not> rejected req \<longrightarrow>
      (\<exists>q n. query_q req = Some q \<and> requested_limit req = Some n \<and>
         GET_suggestions db req =
           (200, Inr \<lparr>response_query = q,
                       response_suggestions = getSuggestions db q (query_entity req) n\<rparr>)))"
proof (intro conjI impI)
  assume "rejected req"
  from handler_rejected[OF this, of db] obtain m
    where "suggestions_handler db req = Next (ValidationError m)" ..
  then show "\<exists>m. GET_suggestions db req =
             (400, Inl (Some \<lparr>error_code = ''VALIDATION_ERROR'', error_message = m\<rparr>))"
    by (simp add: GET_suggestions_def errorHandler_def)
next
  assume "\<not> rejected req"
  from handler_accepted[OF this, of db] show "\<exists>q n. query_q req = Some q \<and> requested_limit req = Some n \<and>
         GET_suggestions db req =
           (200, Inr \<lparr>response_query = q,
                       response_suggestions = getSuggestions db q (query_entity req) n\<rparr>)"
    by (auto simp: GET_suggestions_def)
qed


theorem GET_suggestions_status_witness:
  "(\<exists>m. GET_suggestions search_seed
           \<lparr>query_q = Some ''widget'', query_entity = None, query_limit = Some ''25''\<rparr> =
         (400, Inl (Some \<lparr>error_code = ''VALIDATION_ERROR'', error_message = m\<rparr>))) \<and>
   GET_suggestions search_seed
      \<lparr>query_q = Some ''widget'', query_entity = Some ''products'', query_limit = None\<rparr> =
     (200, Inr \<lparr>response_query = ''widget'',
                 response_suggestions =
                   getSuggestions search_seed ''widget'' (Some ''products'') 10\<rparr>)"
proof -
  have "parseInt ''25'' = Some 25"
    by code_simp
  then have "rejected \<lparr>query_q = Some ''widget'', query_entity = None, query_limit = Some ''25''\<rparr>"
    by (simp add: rejected_def requested_limit_def)
  moreover have "\<not> rejected
      \<lparr>query_q = Some ''widget'', query_entity = Some ''products'', query_limit = None\<rparr>"
    by (simp add: rejected_def requested_limit_def)
  ultimately show ?thesis
    using GET_suggestions_status[of
        "\<lparr>query_q = Some ''widget'', query_entity = None, query_limit = Some ''25''\<rparr>"
        search_seed]
      GET_suggestions_status[of
        "\<lparr>query_q = Some ''widget'', query_entity = Some ''products'', query_limit = None\<rparr>"
        search_seed]
    by (simp add: requested_limit_def)
qed

section \<open>Case folding and \<open>LIKE\<close>\<close>

lemma sqlite_lower_char_idem [simp]:
  "sqlite_lower_char (sqlite_lower_char c) = sqlite_lower_char c"
  by (simp add: sqlite_lower_char_def Let_def)

lemma sqlite_lower_toLowerCase_char [simp]:
  "sqlite_lower_char (toLowerCase_char c) = toLowerCase_char c"
  by (simp add: sqlite_lower_char_def toLowerCase_char_def Let_def)

lemma toLowerCase_char_idem [simp]:
  "toLowerCase_char (toLowerCase_char c) = toLowerCase_char c"
  by (simp add: toLowerCase_char_def Let_def)

lemma toLowerCase_char_ascii:
  "(of_char c :: nat) < 128 \<Longrightarrow> toLowerCase_char c = sqlite_lower_char c"
  by (simp add: sqlite_lower_char_def toLowerCase_char_def Let_def)

lemma of_char_toLowerCase_char:
  "(of_char (toLowerCase_char c) :: nat) = 37 \<longleftrightarrow> (of_char c :: nat) = 37"
  "(of_char (toLowerCase_char c) :: nat) = 95 \<longleftrightarrow> (of_char c :: nat) = 95"
  by (simp_all add: toLowerCase_char_def Let_def)

lemma of_char_sqlite_lower_char:
  "(of_char (sqlite_lower_char c) :: nat) = 37 \<longleftrightarrow> (of_char c :: nat) = 37"
  "(of_char (sqlite_lower_char c) :: nat) = 95 \<longleftrightarrow> (of_char c :: nat) = 95"
  by (simp_all add: sqlite_lower_char_def Let_def)

lemma char_is_wildcard:
  "c = CHR ''%'' \<longleftrightarrow> (of_char c :: nat) = 37"
  "c = CHR ''_'' \<longleftrightarrow> (of_char c :: nat) = 95"
  using of_char_eq_iff[of c "CHR ''%''", where ?'a = nat]
    of_char_eq_iff[of c "CHR ''_''", where ?'a = nat]
  by simp_all

lemma toLowerCase_char_wildcard [simp]:
  "toLowerCase_char c = CHR ''%'' \<longleftrightarrow> c = CHR ''%''"
  "toLowerCase_char c = CHR ''_'' \<longleftrightarrow> c = CHR ''_''"
  by (simp_all only: char_is_wildcard of_char_toLowerCase_char)

lemma sqlite_lower_char_wildcard [simp]:
  "sqlite_lower_char c = CHR ''%'' \<longleftrightarrow> c = CHR ''%''"
  "sqlite_lower_char c = CHR ''_'' \<longleftrightarrow> c = CHR ''_''"
  by (simp_all only: char_is_wildcard of_char_sqlite_lower_char)

lemma LOWER_idem [simp]: "LOWER (LOWER s) = LOWER s"
  by (simp add: LOWER_def)

lemma LOWER_toLowerCase [simp]: "LOWER (toLowerCase s) = toLowerCase s"
  by (simp add: LOWER_def toLowerCase_def)

lemma toLowerCase_idem [simp]: "toLowerCase (toLowerCase s) = toLowerCase s"
  by (simp add: toLowerCase_def)

lemma LOWER_simps [simp]:
  "LOWER [] = []" "LOWER (c # s) = sqlite_lower_char c # LOWER s" "LOWER (s @ t) = LOWER s @ LOWER t"
  "LOWER s = [] \<longleftrightarrow> s = []"
  by (simp_all add: LOWER_def)

lemma toLowerCase_ascii: "ascii q \<Longrightarrow> toLowerCase q = LOWER q"
  by (induction q) (simp_all add: ascii_def toLowerCase_def LOWER_def toLowerCase_char_ascii)

lemma wildcard_free_Nil [simp]: "wildcard_free []"
  by (simp add: wildcard_free_def)

lemma wildcard_free_Cons:
  "wildcard_free (p # q) \<longleftrightarrow> p \<noteq> CHR ''%'' \<and> p \<noteq> CHR ''_'' \<and> wildcard_free q"
  by (auto simp: wildcard_free_def)

lemma wildcard_free_toLowerCase [simp]: "wildcard_free (toLowerCase q) \<longleftrightarrow> wildcard_free q"
  by (induction q) (simp_all add: wildcard_free_Cons toLowerCase_def)

lemma like_match_percent [simp]: "like_match s ''%''"
  by (induction s) simp_all








lemma sqlite_lower_char_nul [simp]: "sqlite_lower_char c = CHR 0x00 \<longleftrightarrow> c = CHR 0x00"
proof -
  have "(of_char (sqlite_lower_char c) :: nat) = 0 \<longleftrightarrow> (of_char c :: nat) = 0"
    by (simp add: sqlite_lower_char_def Let_def)
  then show ?thesis
    using of_char_eq_iff[of "sqlite_lower_char c" "CHR 0x00", where ?'a = nat]
      of_char_eq_iff[of c "CHR 0x00", where ?'a = nat]
    by simp
qed

lemma toLowerCase_char_nul [simp]: "toLowerCase_char c = CHR 0x00 \<longleftrightarrow> c = CHR 0x00"
proof -
  have "(of_char (toLowerCase_char c) :: nat) = 0 \<longleftrightarrow> (of_char c :: nat) = 0"
    by (simp add: toLowerCase_char_def Let_def)
  then show ?thesis
    using of_char_eq_iff[of "toLowerCase_char c" "CHR 0x00", where ?'a = nat]
      of_char_eq_iff[of c "CHR 0x00", where ?'a = nat]
    by simp
qed

lemma nul_free_LOWER [simp]: "nul_free (LOWER s) \<longleftrightarrow> nul_free s"
  by (induction s) (simp_all add: nul_free_def eq_commute[of "CHR 0x00"])

lemma nul_free_toLowerCase [simp]: "nul_free (toLowerCase s) \<longleftrightarrow> nul_free s"
  by (induction s) (simp_all add: nul_free_def toLowerCase_def eq_commute[of "CHR 0x00"])


lemma until_nul_LOWER: "until_nul (LOWER p) = LOWER (until_nul p)"
  by (induction p) (simp_all add: until_nul_def)



section \<open>The per-entity searches\<close>














text \<open>
  The engine reads a query only as far as its first U+0000: the query of three U+0000 has
  the filter pattern \<open>%\<close> and returns every product, and the query \<open>get\<close>, U+0000, \<open>zzz\<close>
  has the filter pattern \<open>%get\<close> and returns the products whose name ends in \<open>get\<close>.
\<close>

lemma sql_like_reads_until_nul:
  "sql_like ''abc'' (''%c'' @ [CHR 0x00] @ ''zzz'')"
  by code_simp

lemma nul_query_matches_all:
  "map suggestion_text (searchProducts search_seed [CHR 0x00, CHR 0x00, CHR 0x00] 10) =
     [''Gadget B'', ''Mini Gadget'', ''Super Widget'', ''Widget A'']"
  by code_simp

lemma query_cut_at_nul:
  "map suggestion_text (searchProducts search_seed (''get'' @ [CHR 0x00] @ ''zzz'') 10) =
     [''Mini Gadget'', ''Super Widget'']"
  by code_simp



text \<open>For a query of ASCII characters, the case of its letters does not matter.\<close>

lemma like_match_LOWER_pattern: "like_match s (LOWER p) = like_match s p"
  by (induction s p rule: like_match.induct) simp_all

lemma sql_like_LOWER_pattern: "sql_like s (LOWER p) = sql_like s p"
  by (simp add: sql_like_def until_nul_LOWER like_match_LOWER_pattern)

lemma ascii_patterns:
  assumes "ascii query"
  shows "sql_like s (CHR ''%'' # toLowerCase query @ ''%'') = sql_like s (CHR ''%'' # query @ ''%'')"
proof -
  have "CHR ''%'' # toLowerCase query @ ''%'' = LOWER (CHR ''%'' # query @ ''%'')"
    using assms by (simp add: toLowerCase_ascii sqlite_lower_char_def)
  then show ?thesis by (simp only: sql_like_LOWER_pattern)
qed

lemma getSuggestions_ascii_case_insensitive:
  assumes "ascii query"
  shows "getSuggestions db (toLowerCase query) entityType limit =
         getSuggestions db query entityType limit"
proof -
  have "products_where (CHR ''%'' # toLowerCase query @ ''%'') (CHR ''%'' # toLowerCase query @ ''%'') =
        products_where (CHR ''%'' # query @ ''%'') (CHR ''%'' # query @ ''%'')"
    and "suppliers_where (CHR ''%'' # toLowerCase query @ ''%'') =
        suppliers_where (CHR ''%'' # query @ ''%'')"
    and "orders_where (CHR ''%'' # toLowerCase query @ ''%'') =
        orders_where (CHR ''%'' # query @ ''%'')"
    by (simp_all add: fun_eq_iff products_where_def suppliers_where_def orders_where_def
        ascii_patterns[OF assms])
  then have "searchProducts db (toLowerCase query) n = searchProducts db query n"
    and "searchSuppliers db (toLowerCase query) n = searchSuppliers db query n"
    and "searchOrders db (toLowerCase query) n = searchOrders db query n" for n
    by (simp_all add: searchProducts_def searchSuppliers_def searchOrders_def Let_def
        products_sql_def suppliers_sql_def orders_sql_def)
  then show ?thesis by (simp add: getSuggestions_def)
qed

text \<open>
  C6. The filter pattern is built from the query as typed, the exact and prefix patterns
  from the lower-cased query; \<open>LIKE\<close> and \<open>LOWER\<close> fold ASCII letters only. So the query
  \<open>CAF\<close>\<open>E\<close>-acute finds nothing in a table whose product is named \<open>Caf\<close>\<open>e\<close>-acute
  \<open>Filter\<close>, and its lower-cased form finds the product.
\<close>

theorem accented_query_case_sensitive:
  "toLowerCase (''CAF'' @ [CHR 0xC9]) = ''caf'' @ [CHR 0xE9] \<and>
   getSuggestions accent_tables (''CAF'' @ [CHR 0xC9]) None 10 = [] \<and>
   map suggestion_id (getSuggestions accent_tables (''caf'' @ [CHR 0xE9]) None 10) = [1]"
  by code_simp

section \<open>The order route\<close>

lemma transaction_block_atomic:
  assumes "txn db = None"
  shows "transaction_block repos now branch items productMap db =
           (case create_order_and_details repos now branch items productMap (tbl db) of
              (Inl err, t) \<Rightarrow> (Inl err, db)
            | (Inr created, t) \<Rightarrow> (Inr created, db\<lparr>tbl := t\<rparr>))"
  using assms
  by (simp add: transaction_block_def db_run_def on_tables_def rollback_and_rethrow_def
      split: prod.splits sum.splits)

lemma resolve_products_not_found:
  assumes "\<forall>item\<in>set found. \<exists>p. productsRepo_findById repos (item_productId item) t = Inr (Some p)"
    and "productsRepo_findById repos (item_productId missing) t = Inr None"
  shows "resolve_products repos t (found @ missing # rest) pm = NotFound (item_productId missing)"
  using assms by (induction found arbitrary: pm) auto

lemma resolve_products_resolved:
  assumes "\<forall>item\<in>set items. \<exists>p. productsRepo_findById repos (item_productId item) t = Inr (Some p)"
  shows "resolve_products repos t items pm =
           Resolved (\<lambda>k. if k \<in> item_productId ` set items then looked_up repos t k else pm k)"
  using assms
proof (induction items arbitrary: pm)
  case Nil
  then show ?case by simp
next
  case (Cons item items)
  from Cons.prems obtain p
    where p: "productsRepo_findById repos (item_productId item) t = Inr (Some p)"
    by auto
  have "(\<lambda>k. if k \<in> item_productId ` set items then looked_up repos t k
              else (pm(item_productId item \<mapsto> p)) k) =
        (\<lambda>k. if k \<in> item_productId ` set (item # items) then looked_up repos t k else pm k)"
    using p by (auto simp: looked_up_def fun_eq_iff)
  with Cons p show ?case by simp
qed

lemma truncate_extend_detail:
  "order_detail.truncate (order_detail.extend (d :: order_detail)
      (order_detail_with_product.fields p)) = d"
  by (simp add: order_detail_with_product.defs order_detail.defs)


lemma with_product_simps [simp]:
  "detail_product (order_detail.extend (d :: order_detail) (order_detail_with_product.fields p)) = p"
  "detail_orderId (order_detail.extend (d :: order_detail) (order_detail_with_product.fields p)) = detail_orderId d"
  "detail_productId (order_detail.extend (d :: order_detail) (order_detail_with_product.fields p)) = detail_productId d"
  "quantity (order_detail.extend (d :: order_detail) (order_detail_with_product.fields p)) = quantity d"
  "unitPrice (order_detail.extend (d :: order_detail) (order_detail_with_product.fields p)) = unitPrice d"
  "detail_notes (order_detail.extend (d :: order_detail) (order_detail_with_product.fields p)) = detail_notes d"
  "orderDetailId (order_detail.extend (d :: order_detail) (order_detail_with_product.fields p)) = orderDetailId d"
  by (simp_all add: order_detail_with_product.defs order_detail.defs)

lemma created_detail_simps [simp]:
  "detail_orderId (order_detail_data.extend (d :: order_detail_data) (order_detail.fields k)) = detail_orderId d"
  "detail_productId (order_detail_data.extend (d :: order_detail_data) (order_detail.fields k)) = detail_productId d"
  "quantity (order_detail_data.extend (d :: order_detail_data) (order_detail.fields k)) = quantity d"
  "unitPrice (order_detail_data.extend (d :: order_detail_data) (order_detail.fields k)) = unitPrice d"
  "detail_notes (order_detail_data.extend (d :: order_detail_data) (order_detail.fields k)) = detail_notes d"
  "orderDetailId (order_detail_data.extend (d :: order_detail_data) (order_detail.fields k)) = k"
  by (simp_all add: order_detail.defs order_detail_data.defs)

lemma created_order_simps [simp]:
  "orderId (order_data.extend (d :: order_data) (order.fields k)) = k"
  "branchId (order_data.extend (d :: order_data) (order.fields k)) = branchId d"
  "orderDate (order_data.extend (d :: order_data) (order.fields k)) = orderDate d"
  "status (order_data.extend (d :: order_data) (order.fields k)) = status d"
  "order_name (order_data.extend (d :: order_data) (order.fields k)) = order_name d"
  "order_description (order_data.extend (d :: order_data) (order.fields k)) = order_description d"
  by (simp_all add: order.defs order_data.defs)

lemma with_details_simps [simp]:
  "details (order.extend (r :: order) (order_with_details.fields ds)) = ds"
  "orderId (order.extend (r :: order) (order_with_details.fields ds)) = orderId r"
  "order.truncate (order.extend (r :: order) (order_with_details.fields ds)) = r"
  by (simp_all add: order_with_details.defs order.defs)

lemma create_details_table:
  assumes "\<forall>item\<in>set items. productMap (item_productId item) \<noteq> None"
  shows "\<exists>news. create_details table_repositories order_id productMap items acc t =
           (Inr (acc @ news),
            t\<lparr>order_details := order_details t @ map order_detail.truncate news\<rparr>) \<and>
         list_all2 (detail_of_item order_id productMap) items news"
  using assms
proof (induction items arbitrary: acc t)
  case Nil
  then show ?case by simp
next
  case (Cons item items)
  from Cons.prems obtain product where product: "productMap (item_productId item) = Some product"
    by auto
  define created where "created = order_detail_data.extend
      \<lparr>detail_orderId = order_id, detail_productId = item_productId item,
       quantity = item_quantity item, unitPrice = price product, detail_notes = []\<rparr>
      (order_detail.fields (next_id (map orderDetailId (order_details t))))"
  define new where "new = order_detail.extend created (order_detail_with_product.fields product)"
  define t' where "t' = t\<lparr>order_details := order_details t @ [created]\<rparr>"
  from Cons.prems have "\<forall>item\<in>set items. productMap (item_productId item) \<noteq> None"
    by simp
  from Cons.IH[OF this, of "acc @ [new]" t'] obtain news
    where news: "create_details table_repositories order_id productMap items (acc @ [new]) t' =
           (Inr ((acc @ [new]) @ news),
            t'\<lparr>order_details := order_details t' @ map order_detail.truncate news\<rparr>)"
      "list_all2 (detail_of_item order_id productMap) items news"
    by blast
  have step: "create_details table_repositories order_id productMap (item # items) acc t =
        create_details table_repositories order_id productMap items (acc @ [new]) t'"
    by (simp add: product table_repositories_def Let_def created_def new_def t'_def)
  have "detail_of_item order_id productMap item new"
    by (simp add: detail_of_item_def new_def created_def product)
  moreover have "order_detail.truncate new = created"
    by (simp add: new_def truncate_extend_detail)
  ultimately show ?case
    using news unfolding step
    by (intro exI[of _ "new # news"]) (simp add: t'_def)
qed

lemma le_fold_max: "x \<in> set xs \<Longrightarrow> (x :: int) \<le> fold max xs a"
proof (induction xs arbitrary: a)
  case Nil
  then show ?case by simp
next
  case (Cons y ys)
  have "a \<le> fold max ys a" for a :: int
    by (induction ys arbitrary: a) (auto intro: order_trans[OF max.cobounded2])
  from this[of "max y a"] Cons show ?case by auto
qed

lemma find_append_conv:
  "find P (xs @ ys) = (case find P xs of None \<Rightarrow> find P ys | Some x \<Rightarrow> Some x)"
  by (induction xs) simp_all

lemma find_created:
  "find (\<lambda>r. orderId r = next_id (map orderId rows)) (rows @ [created]) =
     (if orderId created = next_id (map orderId rows) then Some created else None)"
proof -
  have "\<forall>r\<in>set rows. orderId r \<noteq> next_id (map orderId rows)"
    using le_fold_max[of _ "map orderId rows" 0] by (fastforce simp: next_id_def)
  then have "find (\<lambda>r. orderId r = next_id (map orderId rows)) rows = None"
    by (simp add: find_None_iff)
  then show ?thesis by (simp add: find_append_conv)
qed


lemma looked_up_table [simp]: "looked_up table_repositories t = product_by_id t"
  by (simp add: looked_up_def table_repositories_def product_by_id_def fun_eq_iff)

lemma create_order_and_details_table:
  assumes "\<forall>item\<in>set items. productMap (item_productId item) \<noteq> None"
  shows "\<exists>news. create_order_and_details table_repositories now branch items productMap t =
           (Inr (orderId (created_order t branch now), news),
            t\<lparr>orders := orders t @ [created_order t branch now],
              order_details := order_details t @ map order_detail.truncate news\<rparr>) \<and>
         list_all2 (detail_of_item (orderId (created_order t branch now)) productMap) items news"
proof -
  define t' where "t' = t\<lparr>orders := orders t @ [created_order t branch now]\<rparr>"
  have created: "ordersRepo_create table_repositories
      \<lparr>branchId = branch, orderDate = now, status = ''pending'', order_name = [],
       order_description = []\<rparr> t = (Inr (created_order t branch now), t')"
    by (simp add: table_repositories_def Let_def created_order_def t'_def
        order.defs order_data.defs)
  from create_details_table[OF assms, of "orderId (created_order t branch now)" "[]" t']
  obtain news where news:
    "create_details table_repositories (orderId (created_order t branch now)) productMap items [] t' =
       (Inr news, t'\<lparr>order_details := order_details t' @ map order_detail.truncate news\<rparr>)"
    "list_all2 (detail_of_item (orderId (created_order t branch now)) productMap) items news"
    by auto
  show ?thesis
    using news
    by (intro exI[of _ news])
       (simp add: create_order_and_details_def Let_def created t'_def)
qed

lemma create_order_handler_created:
  assumes "txn db = None"
    and "request_branchId req = Some branch" and "branch \<noteq> 0"
    and "request_items req = Some items" and "items \<noteq> []"
    and "\<forall>item\<in>set items. product_by_id (tbl db) (item_productId item) \<noteq> None"
  shows "\<exists>news. create_order_handler table_repositories now req db =
           (Reply 201 (OrderBody (order.extend (created_order (tbl db) branch now)
                                     (order_with_details.fields news))),
            db\<lparr>tbl := (tbl db)\<lparr>orders := orders (tbl db) @ [created_order (tbl db) branch now],
                   order_details := order_details (tbl db) @ map order_detail.truncate news\<rparr>\<rparr>) \<and>
         list_all2 (detail_of_item (orderId (created_order (tbl db) branch now))
                      (product_by_id (tbl db))) items news"
proof -
  define pm where "pm = (\<lambda>k. if k \<in> item_productId ` set items
                              then product_by_id (tbl db) k else None)"
  have found: "\<forall>item\<in>set items.
      \<exists>p. productsRepo_findById table_repositories (item_productId item) (tbl db) = Inr (Some p)"
    using assms(6) by (auto simp: table_repositories_def product_by_id_def)
  have resolved: "resolve_products table_repositories (tbl db) items Map.empty = Resolved pm"
    using resolve_products_resolved[OF found, of Map.empty] by (simp add: pm_def cong: if_cong)
  have "\<forall>item\<in>set items. pm (item_productId item) \<noteq> None"
    using assms(6) by (simp add: pm_def)
  from create_order_and_details_table[OF this, of now branch "tbl db"] obtain news
    where news: "create_order_and_details table_repositories now branch items pm (tbl db) =
           (Inr (orderId (created_order (tbl db) branch now), news),
            (tbl db)\<lparr>orders := orders (tbl db) @ [created_order (tbl db) branch now],
              order_details := order_details (tbl db) @ map order_detail.truncate news\<rparr>)"
      "list_all2 (detail_of_item (orderId (created_order (tbl db) branch now)) pm) items news"
    by blast
  have "list_all2 (detail_of_item (orderId (created_order (tbl db) branch now))
                      (product_by_id (tbl db))) items news"
    using news(2)
    by (rule list.rel_mono_strong) (auto simp: detail_of_item_def pm_def split: if_splits)
  moreover have "ordersRepo_findById table_repositories
      (orderId (created_order (tbl db) branch now))
      ((tbl db)\<lparr>orders := orders (tbl db) @ [created_order (tbl db) branch now],
              order_details := order_details (tbl db) @ map order_detail.truncate news\<rparr>) =
      Inr (Some (created_order (tbl db) branch now))"
    using find_created[of "orders (tbl db)" "created_order (tbl db) branch now"]
    by (simp add: table_repositories_def created_order_def)
  ultimately show ?thesis
    using assms(1-5) resolved news(1)
    by (intro exI[of _ news])
       (simp add: create_order_handler_def transaction_block_atomic)
qed

text \<open>
  C2. For a request that has passed validation, on a connection with no transaction open:
  when the creation of the order or of one of its details throws, the handler passes that
  error on and the database is as it was before the request; when all of them succeed,
  the database holds what all of them wrote. This holds whatever the repositories do.
\<close>

theorem order_creation_all_or_nothing:
  assumes "txn db = None"
    and "request_branchId req = Some branch" and "branch \<noteq> 0"
    and "request_items req = Some items" and "items \<noteq> []"
    and "resolve_products repos (tbl db) items Map.empty = Resolved productMap"
  shows "case create_order_and_details repos now branch items productMap (tbl db) of
           (Inl err, t) \<Rightarrow> create_order_handler repos now req db = (Next err, db)
         | (Inr created, t) \<Rightarrow> snd (create_order_handler repos now req db) = db\<lparr>tbl := t\<rparr>"
  using assms
  by (auto simp: create_order_handler_def transaction_block_atomic
      split: prod.splits sum.splits option.splits)

lemma resolve_products_checked: "resolve_products checked_repositories (tbl order_seed)
       [\<lparr>item_productId = 5, item_quantity = 2\<rparr>, \<lparr>item_productId = 12, item_quantity = 0\<rparr>]
       Map.empty = Resolved [5 \<mapsto> seed_products ! 0, 12 \<mapsto> seed_products ! 1]"
  by (simp add: checked_repositories_def table_repositories_def order_seed_def seed_products_def)

theorem order_creation_all_or_nothing_witness:
  "create_order_handler checked_repositories test_now
     \<lparr>request_branchId = Some 1,
      request_items = Some [\<lparr>item_productId = 5, item_quantity = 2\<rparr>,
                            \<lparr>item_productId = 12, item_quantity = 0\<rparr>]\<rparr>
     order_seed =
   (Next (DatabaseError ''CHECK constraint failed: quantity''), order_seed)"
proof -
  have "txn order_seed = None"
    by (simp add: order_seed_def)
  from order_creation_all_or_nothing[OF this _ _ _ _ resolve_products_checked, of
      "\<lparr>request_branchId = Some 1,
        request_items = Some [\<lparr>item_productId = 5, item_quantity = 2\<rparr>,
                              \<lparr>item_productId = 12, item_quantity = 0\<rparr>]\<rparr>" 1 test_now]
  show ?thesis
    by (simp add: create_order_and_details_def checked_repositories_def table_repositories_def
        order_seed_def seed_products_def Let_def)
qed

text \<open>
  C4, as stated, fails for a request whose \<open>branchId\<close> is 0 (or absent): the branch is
  checked first, and the reply is the validation error, not the product that is missing.
\<close>

theorem branch_is_checked_first:
  "product_by_id (tbl order_seed) 999 = None \<and>
   create_order_handler table_repositories test_now
     \<lparr>request_branchId = Some 0,
      request_items = Some [\<lparr>item_productId = 999, item_quantity = 1\<rparr>]\<rparr>
     order_seed =
   (Next (ValidationError ''branchId is required''), order_seed)"
  by (simp add: create_order_handler_def product_by_id_def order_seed_def seed_products_def)

text \<open>
  C4, amended: for a request with a \<open>branchId\<close> that is not 0, whose items up to some item
  all resolve and whose next item resolves to no product, the reply is 400 with the body
  \<open>{error: "Product not found", productId}\<close> for that item; the items after it are not
  looked at, and the database is unchanged.
\<close>

theorem product_not_found_reply:
  assumes "request_branchId req = Some branch" and "branch \<noteq> 0"
    and "request_items req = Some (found @ missing # rest)"
    and "\<forall>item\<in>set found.
           \<exists>p. productsRepo_findById repos (item_productId item) (tbl db) = Inr (Some p)"
    and "productsRepo_findById repos (item_productId missing) (tbl db) = Inr None"
  shows "create_order_handler repos now req db =
           (Reply 400 (ProductNotFoundBody ''Product not found'' (item_productId missing)), db)"
  using assms(1-3) resolve_products_not_found[OF assms(4,5), of rest Map.empty]
  by (simp add: create_order_handler_def)

theorem product_not_found_reply_witness:
  "create_order_handler table_repositories test_now
     \<lparr>request_branchId = Some 1,
      request_items = Some [\<lparr>item_productId = 5, item_quantity = 2\<rparr>,
                            \<lparr>item_productId = 999, item_quantity = 1\<rparr>]\<rparr>
     order_seed =
   (Reply 400 (ProductNotFoundBody ''Product not found'' 999), order_seed)"
  using product_not_found_reply[of
      "\<lparr>request_branchId = Some 1,
        request_items = Some [\<lparr>item_productId = 5, item_quantity = 2\<rparr>,
                              \<lparr>item_productId = 999, item_quantity = 1\<rparr>]\<rparr>"
      1 "[\<lparr>item_productId = 5, item_quantity = 2\<rparr>]" "\<lparr>item_productId = 999, item_quantity = 1\<rparr>"
      "[]" table_repositories order_seed test_now]
  by (simp add: table_repositories_def order_seed_def seed_products_def)

lemma unchanged_by_update [simp]:
  "order_details (update_product_price newPrice k t) = order_details t"
  "orders (update_product_price newPrice k t) = orders t"
  by (simp_all add: update_product_price_def)

lemma product_by_id_update:
  "product_by_id (update_product_price newPrice k t) j =
     (if j = k then map_option (\<lambda>p. p\<lparr>price := newPrice\<rparr>) (product_by_id t k)
      else product_by_id t j)"
proof -
  have "find (\<lambda>p. productId p = j)
          (map (\<lambda>row. if productId row = k then row\<lparr>price := newPrice\<rparr> else row) rows) =
        (if j = k then map_option (\<lambda>p. p\<lparr>price := newPrice\<rparr>) (find (\<lambda>p. productId p = k) rows)
         else find (\<lambda>p. productId p = j) rows)" for rows :: "product list"
    by (induction rows) auto
  from this[of "products t"] show ?thesis
    by (simp add: product_by_id_def update_product_price_def)
qed

lemma created_details_priced:
  assumes "list_all2 (detail_of_item oid (product_by_id t)) items news"
  shows "list_all2 (priced_from t) items (map order_detail.truncate news)"
  using assms
  by (simp add: list_all2_map2 list_all2_conv_all_nth)
     (simp add: detail_of_item_def priced_from_def order_detail.defs)

lemma priced_after_update:
  assumes "list_all2 (priced_from (update_product_price newPrice k t)) items news"
    and "d \<in> set news" and "detail_productId d = k"
  shows "unitPrice d = newPrice"
proof -
  from assms(1,2) obtain item where "priced_from (update_product_price newPrice k t) item d"
    by (auto simp: list_all2_conv_all_nth in_set_conv_nth)
  with assms(3) show ?thesis
    by (auto simp: priced_from_def product_by_id_update)
qed

text \<open>
  C5. Two valid requests with a price update between them, on the repositories over the
  tables: the details of the first request carry the prices the products had when it was
  validated, the update leaves them as they are, and the details of the second request
  carry the prices after the update.
\<close>

theorem unitPrice_is_snapshot:
  assumes "txn db = None"
    and "request_branchId req1 = Some branch1" and "branch1 \<noteq> 0"
    and "request_items req1 = Some items1" and "items1 \<noteq> []"
    and "\<forall>item\<in>set items1. product_by_id (tbl db) (item_productId item) \<noteq> None"
    and "request_branchId req2 = Some branch2" and "branch2 \<noteq> 0"
    and "request_items req2 = Some items2" and "items2 \<noteq> []"
    and "\<forall>item\<in>set items2. product_by_id (tbl db) (item_productId item) \<noteq> None"
  shows
    "let db1 = snd (create_order_handler table_repositories now1 req1 db);
         db2 = db1\<lparr>tbl := update_product_price newPrice k (tbl db1)\<rparr>;
         db3 = snd (create_order_handler table_repositories now2 req2 db2)
     in \<exists>news1 news2.
          order_details (tbl db1) = order_details (tbl db) @ news1 \<and>
          order_details (tbl db2) = order_details (tbl db) @ news1 \<and>
          order_details (tbl db3) = order_details (tbl db) @ news1 @ news2 \<and>
          list_all2 (priced_from (tbl db)) items1 news1 \<and>
          list_all2 (priced_from (update_product_price newPrice k (tbl db))) items2 news2 \<and>
          (\<forall>d\<in>set news2. detail_productId d = k \<longrightarrow> unitPrice d = newPrice)"
proof -
  define db1 where "db1 = snd (create_order_handler table_repositories now1 req1 db)"
  define db2 where "db2 = db1\<lparr>tbl := update_product_price newPrice k (tbl db1)\<rparr>"
  define db3 where "db3 = snd (create_order_handler table_repositories now2 req2 db2)"
  from create_order_handler_created[OF assms(1-6), of now1] obtain n1
    where n1: "db1 = db\<lparr>tbl := (tbl db)\<lparr>orders := orders (tbl db) @ [created_order (tbl db) branch1 now1],
                   order_details := order_details (tbl db) @ map order_detail.truncate n1\<rparr>\<rparr>"
      "list_all2 (detail_of_item (orderId (created_order (tbl db) branch1 now1))
                      (product_by_id (tbl db))) items1 n1"
    unfolding db1_def by auto
  have products1: "products (tbl db1) = products (tbl db)"
    by (simp add: n1(1))
  have by_id2: "product_by_id (tbl db2) = product_by_id (update_product_price newPrice k (tbl db))"
    by (simp add: db2_def product_by_id_def update_product_price_def products1 fun_eq_iff)
  have "txn db2 = None"
    using assms(1) by (simp add: db2_def n1(1))
  moreover have "\<forall>item\<in>set items2. product_by_id (tbl db2) (item_productId item) \<noteq> None"
    using assms(11) by (auto simp: by_id2 product_by_id_update)
  ultimately obtain n2
    where n2: "db3 = db2\<lparr>tbl := (tbl db2)\<lparr>orders := orders (tbl db2) @ [created_order (tbl db2) branch2 now2],
                   order_details := order_details (tbl db2) @ map order_detail.truncate n2\<rparr>\<rparr>"
      "list_all2 (detail_of_item (orderId (created_order (tbl db2) branch2 now2))
                      (product_by_id (tbl db2))) items2 n2"
    using create_order_handler_created[OF _ assms(7-10), of db2 now2] unfolding db3_def by auto
  have "order_details (tbl db1) = order_details (tbl db) @ map order_detail.truncate n1"
    by (simp add: n1(1))
  moreover have "order_details (tbl db2) = order_details (tbl db) @ map order_detail.truncate n1"
    by (simp add: db2_def n1(1))
  moreover have "order_details (tbl db3) =
      order_details (tbl db) @ map order_detail.truncate n1 @ map order_detail.truncate n2"
    by (simp add: n2(1) db2_def n1(1))
  moreover have "list_all2 (priced_from (tbl db)) items1 (map order_detail.truncate n1)"
    using n1(2) by (rule created_details_priced)
  moreover have "list_all2 (priced_from (update_product_price newPrice k (tbl db))) items2
      (map order_detail.truncate n2)"
  proof -
    have "priced_from (tbl db2) = priced_from (update_product_price newPrice k (tbl db))"
      by (simp add: priced_from_def by_id2 fun_eq_iff)
    with created_details_priced[OF n2(2)] show ?thesis by simp
  qed
  moreover from this
  have "\<forall>d\<in>set (map order_detail.truncate n2). detail_productId d = k \<longrightarrow> unitPrice d = newPrice"
    by (blast intro: priced_after_update)
  ultimately show ?thesis
    unfolding Let_def db1_def[symmetric] db2_def[symmetric] db3_def[symmetric] by blast
qed


theorem unitPrice_is_snapshot_witness:
  "(let db1 = snd (create_order_handler table_repositories test_now one_widget order_seed);
        db2 = db1\<lparr>tbl := update_product_price (3999 / 100) 5 (tbl db1)\<rparr>;
        db3 = snd (create_order_handler table_repositories test_now one_widget db2)
    in \<exists>news1 news2.
         order_details (tbl db1) = order_details (tbl order_seed) @ news1 \<and>
         order_details (tbl db2) = order_details (tbl order_seed) @ news1 \<and>
         order_details (tbl db3) = order_details (tbl order_seed) @ news1 @ news2 \<and>
         list_all2 (priced_from (tbl order_seed))
           [\<lparr>item_productId = 5, item_quantity = 1\<rparr>] news1 \<and>
         list_all2 (priced_from (update_product_price (3999 / 100) 5 (tbl order_seed)))
           [\<lparr>item_productId = 5, item_quantity = 1\<rparr>] news2 \<and>
         (\<forall>d\<in>set news2. detail_productId d = 5 \<longrightarrow> unitPrice d = 3999 / 100)) \<and>
   map unitPrice
     (order_details (tbl (snd (create_order_handler table_repositories test_now one_widget
        ((snd (create_order_handler table_repositories test_now one_widget order_seed))
           \<lparr>tbl := update_product_price (3999 / 100) 5
                     (tbl (snd (create_order_handler table_repositories test_now one_widget
                        order_seed)))\<rparr>))))) =
     [2999 / 100, 3999 / 100]"
proof (rule conjI)
  have found: "\<forall>item\<in>set [\<lparr>item_productId = 5, item_quantity = 1\<rparr>].
      product_by_id (tbl order_seed) (item_productId item) \<noteq> None"
    by (simp add: product_by_id_def order_seed_def seed_products_def)
  show "let db1 = snd (create_order_handler table_repositories test_now one_widget order_seed);
        db2 = db1\<lparr>tbl := update_product_price (3999 / 100) 5 (tbl db1)\<rparr>;
        db3 = snd (create_order_handler table_repositories test_now one_widget db2)
    in \<exists>news1 news2.
         order_details (tbl db1) = order_details (tbl order_seed) @ news1 \<and>
         order_details (tbl db2) = order_details (tbl order_seed) @ news1 \<and>
         order_details (tbl db3) = order_details (tbl order_seed) @ news1 @ news2 \<and>
         list_all2 (priced_from (tbl order_seed))
           [\<lparr>item_productId = 5, item_quantity = 1\<rparr>] news1 \<and>
         list_all2 (priced_from (update_product_price (3999 / 100) 5 (tbl order_seed)))
           [\<lparr>item_productId = 5, item_quantity = 1\<rparr>] news2 \<and>
         (\<forall>d\<in>set news2. detail_productId d = 5 \<longrightarrow> unitPrice d = 3999 / 100)"
    by (rule unitPrice_is_snapshot[where ?branch1.0 = 1 and ?branch2.0 = 1])
       (simp_all add: one_widget_def order_seed_def found[unfolded order_seed_def, simplified])
next
  show "map unitPrice
     (order_details (tbl (snd (create_order_handler table_repositories test_now one_widget
        ((snd (create_order_handler table_repositories test_now one_widget order_seed))
           \<lparr>tbl := update_product_price (3999 / 100) 5
                     (tbl (snd (create_order_handler table_repositories test_now one_widget
                        order_seed)))\<rparr>))))) =
     [2999 / 100, 3999 / 100]"
    by code_simp
qed

text \<open>
  C10. For a valid request, on the repositories over the tables, the handler creates one
  detail for each item, in input order, with the item's product and quantity: items with
  the same product are not merged and their quantities not summed. Each detail carries
  the product found for its identifier and that product's price, so details of the same
  product carry the same product record and the same unit price.
\<close>

theorem one_detail_per_item:
  assumes "txn db = None"
    and "request_branchId req = Some branch" and "branch \<noteq> 0"
    and "request_items req = Some items" and "items \<noteq> []"
    and "\<forall>item\<in>set items. product_by_id (tbl db) (item_productId item) \<noteq> None"
  shows "\<exists>news.
           create_order_handler table_repositories now req db =
             (Reply 201 (OrderBody (order.extend (created_order (tbl db) branch now)
                                       (order_with_details.fields news))),
              db\<lparr>tbl := (tbl db)
                     \<lparr>orders := orders (tbl db) @ [created_order (tbl db) branch now],
                      order_details := order_details (tbl db) @ map order_detail.truncate news\<rparr>\<rparr>) \<and>
           list_all2 (detail_of_item (orderId (created_order (tbl db) branch now))
                        (product_by_id (tbl db))) items news \<and>
           (\<forall>i<length items. \<forall>j<length items.
              item_productId (items ! i) = item_productId (items ! j) \<longrightarrow>
              detail_product (news ! i) = detail_product (news ! j) \<and>
              unitPrice (news ! i) = unitPrice (news ! j))"
proof -
  from create_order_handler_created[OF assms, of now] obtain news
    where news: "create_order_handler table_repositories now req db =
             (Reply 201 (OrderBody (order.extend (created_order (tbl db) branch now)
                                       (order_with_details.fields news))),
              db\<lparr>tbl := (tbl db)
                     \<lparr>orders := orders (tbl db) @ [created_order (tbl db) branch now],
                      order_details := order_details (tbl db) @ map order_detail.truncate news\<rparr>\<rparr>)"
      "list_all2 (detail_of_item (orderId (created_order (tbl db) branch now))
                        (product_by_id (tbl db))) items news"
    by blast
  have "detail_product (news ! i) = detail_product (news ! j) \<and>
        unitPrice (news ! i) = unitPrice (news ! j)"
    if "i < length items" "j < length items"
      "item_productId (items ! i) = item_productId (items ! j)" for i j
  proof -
    from list_all2_nthD[OF news(2) that(1)] list_all2_nthD[OF news(2) that(2)]
    have "product_by_id (tbl db) (item_productId (items ! i)) = Some (detail_product (news ! i))"
      "product_by_id (tbl db) (item_productId (items ! j)) = Some (detail_product (news ! j))"
      "unitPrice (news ! i) = price (detail_product (news ! i))"
      "unitPrice (news ! j) = price (detail_product (news ! j))"
      by (simp_all add: detail_of_item_def)
    with that(3) show ?thesis by simp
  qed
  with news show ?thesis by blast
qed

theorem one_detail_per_item_witness:
  "(\<exists>news.
      create_order_handler table_repositories test_now twice_request order_seed =
        (Reply 201 (OrderBody (order.extend (created_order (tbl order_seed) 1 test_now)
                                  (order_with_details.fields news))),
         order_seed\<lparr>tbl := (tbl order_seed)
                \<lparr>orders := orders (tbl order_seed) @ [created_order (tbl order_seed) 1 test_now],
                 order_details :=
                   order_details (tbl order_seed) @ map order_detail.truncate news\<rparr>\<rparr>) \<and>
      list_all2 (detail_of_item (orderId (created_order (tbl order_seed) 1 test_now))
                   (product_by_id (tbl order_seed)))
        [\<lparr>item_productId = 5, item_quantity = 2\<rparr>, \<lparr>item_productId = 5, item_quantity = 3\<rparr>]
        news \<and>
      (\<forall>i<length [\<lparr>item_productId = 5, item_quantity = 2\<rparr>,
                     \<lparr>item_productId = 5, item_quantity = 3\<rparr>].
         \<forall>j<length [\<lparr>item_productId = 5, item_quantity = 2\<rparr>,
                       \<lparr>item_productId = 5, item_quantity = 3\<rparr>].
           item_productId ([\<lparr>item_productId = 5, item_quantity = 2\<rparr>,
                            \<lparr>item_productId = 5, item_quantity = 3\<rparr>] ! i) =
           item_productId ([\<lparr>item_productId = 5, item_quantity = 2\<rparr>,
                            \<lparr>item_productId = 5, item_quantity = 3\<rparr>] ! j) \<longrightarrow>
           detail_product (news ! i) = detail_product (news ! j) \<and>
           unitPrice (news ! i) = unitPrice (news ! j))) \<and>
   map (\<lambda>d. (detail_productId d, quantity d, unitPrice d))
     (order_details (tbl (snd (create_order_handler table_repositories test_now twice_request
        order_seed)))) =
     [(5, 2, 2999 / 100), (5, 3, 2999 / 100)]"
proof (rule conjI)
  show "\<exists>news.
      create_order_handler table_repositories test_now twice_request order_seed =
        (Reply 201 (OrderBody (order.extend (created_order (tbl order_seed) 1 test_now)
                                  (order_with_details.fields news))),
         order_seed\<lparr>tbl := (tbl order_seed)
                \<lparr>orders := orders (tbl order_seed) @ [created_order (tbl order_seed) 1 test_now],
                 order_details :=
                   order_details (tbl order_seed) @ map order_detail.truncate news\<rparr>\<rparr>) \<and>
      list_all2 (detail_of_item (orderId (created_order (tbl order_seed) 1 test_now))
                   (product_by_id (tbl order_seed)))
        [\<lparr>item_productId = 5, item_quantity = 2\<rparr>, \<lparr>item_productId = 5, item_quantity = 3\<rparr>]
        news \<and>
      (\<forall>i<length [\<lparr>item_productId = 5, item_quantity = 2\<rparr>,
                     \<lparr>item_productId = 5, item_quantity = 3\<rparr>].
         \<forall>j<length [\<lparr>item_productId = 5, item_quantity = 2\<rparr>,
                       \<lparr>item_productId = 5, item_quantity = 3\<rparr>].
           item_productId ([\<lparr>item_productId = 5, item_quantity = 2\<rparr>,
                            \<lparr>item_productId = 5, item_quantity = 3\<rparr>] ! i) =
           item_productId ([\<lparr>item_productId = 5, item_quantity = 2\<rparr>,
                            \<lparr>item_productId = 5, item_quantity = 3\<rparr>] ! j) \<longrightarrow>
           detail_product (news ! i) = detail_product (news ! j) \<and>
           unitPrice (news ! i) = unitPrice (news ! j))"
    by (rule one_detail_per_item)
       (simp_all add: twice_request_def order_seed_def product_by_id_def seed_products_def)
next
  show "map (\<lambda>d. (detail_productId d, quantity d, unitPrice d))
     (order_details (tbl (snd (create_order_handler table_repositories test_now twice_request
        order_seed)))) =
     [(5, 2, 2999 / 100), (5, 3, 2999 / 100)]"
    by code_simp
qed

text \<open>
  C8. The handler checks the branch, the items array and the products, and no quantity:
  a request for a quantity of 0 is answered 201, and the order and its detail of
  quantity 0 are written.
\<close>

theorem quantity_zero_is_accepted:
  "create_order_handler table_repositories test_now
     \<lparr>request_branchId = Some 1,
      request_items = Some [\<lparr>item_productId = 5, item_quantity = 0\<rparr>]\<rparr>
     order_seed =
   (Reply 201
      (OrderBody
         \<lparr>branchId = 1, orderDate = test_now, status = ''pending'', order_name = [],
          order_description = [], orderId = 1,
          details =
            [\<lparr>detail_orderId = 1, detail_productId = 5, quantity = 0, unitPrice = 2999 / 100,
              detail_notes = [], orderDetailId = 1, detail_product = seed_products ! 0\<rparr>]\<rparr>),
    order_seed
      \<lparr>tbl := (tbl order_seed)
         \<lparr>orders :=
            [\<lparr>branchId = 1, orderDate = test_now, status = ''pending'', order_name = [],
              order_description = [], orderId = 1\<rparr>],
          order_details :=
            [\<lparr>detail_orderId = 1, detail_productId = 5, quantity = 0, unitPrice = 2999 / 100,
              detail_notes = [], orderDetailId = 1\<rparr>]\<rparr>\<rparr>)"
  by code_simp

end
